theory Spec2Isabelle
  imports Main "HOL-Library.Sublist" "HOL-Library.AList"
begin

section \<open>Decoded JSON documents and Python run-time errors\<close>

text \<open>
  The driver works on the documents that \<open>json.loads\<close> returns: \<open>None\<close>, booleans,
  integers, text, lists and dictionaries with text keys. A dictionary is an association
  list read with \<open>map_of\<close>. JSON numbers are restricted to integers: floating point is
  outside this embedding.
\<close>

datatype json =
    JNull
  | JBool bool
  | JInt int
  | JStr string
  | JList "json list"
  | JDict "(string \<times> json) list"

text \<open>
  Every exception the modelled code can raise is a value. \<open>KeyError\<close> carries the key
  that was looked up, \<open>UnboundLocalError\<close> the name of the local variable,
  \<open>ValueError\<close>, \<open>NotImplementedError\<close> the message the code builds and
  \<open>InvalidCredsError\<close> the value it is constructed with. \<open>IntLiteralError\<close> is
  the \<open>ValueError\<close> that \<open>int()\<close> raises on text that is no integer literal; it
  carries that text.
\<close>

datatype error =
    KeyError json
  | IndexError
  | TypeError
  | AttributeError
  | UnboundLocalError string
  | IntLiteralError string
  | ValueError string
  | NotImplementedError string
  | InvalidCredsError json

definition bind_err :: "error + 'a \<Rightarrow> ('a \<Rightarrow> error + 'b) \<Rightarrow> error + 'b" where
  "bind_err m f = (case m of Inl e \<Rightarrow> Inl e | Inr x \<Rightarrow> f x)"

text \<open>
  What the interpreter does to text depends on its version: which text \<open>int()\<close>
  accepts (digit grouping, the set of blanks) and how \<open>str()\<close> prints a list or a
  dictionary. Both are parameters of the model.
\<close>

record interp =
  int_text :: "string \<Rightarrow> int option"
  repr :: "json \<Rightarrow> string"

text \<open>\<open>key in x\<close> for a text key: dictionary keys, list elements, or a substring test.\<close>

definition py_contains :: "string \<Rightarrow> json \<Rightarrow> error + bool" where
  "py_contains key x =
     (case x of
        JDict d \<Rightarrow> Inr (map_of d key \<noteq> None)
      | JList xs \<Rightarrow> Inr (JStr key \<in> set xs)
      | JStr s \<Rightarrow> Inr (sublist key s)
      | _ \<Rightarrow> Inl TypeError)"

text \<open>\<open>x[key]\<close> for a text key: only a dictionary can be subscripted with text.\<close>

definition py_getitem :: "json \<Rightarrow> string \<Rightarrow> error + json" where
  "py_getitem x key =
     (case x of
        JDict d \<Rightarrow> (case map_of d key of None \<Rightarrow> Inl (KeyError (JStr key)) | Some v \<Rightarrow> Inr v)
      | _ \<Rightarrow> Inl TypeError)"

text \<open>
  \<open>x[i]\<close> for an integer \<open>i\<close>; negative indices count from the end. A decoded
  dictionary has no integer key.
\<close>

definition seq_index :: "'a list \<Rightarrow> int \<Rightarrow> error + 'a" where
  "seq_index xs i =
     (if 0 \<le> i \<and> i < int (length xs) then Inr (xs ! nat i)
      else if i < 0 \<and> - int (length xs) \<le> i then Inr (xs ! nat (int (length xs) + i))
      else Inl IndexError)"


text \<open>\<open>x.get(key, default)\<close>: only a dictionary has the method.\<close>

definition py_get :: "json \<Rightarrow> string \<Rightarrow> json \<Rightarrow> error + json" where
  "py_get x key dflt =
     (case x of
        JDict d \<Rightarrow> Inr (case map_of d key of None \<Rightarrow> dflt | Some v \<Rightarrow> v)
      | _ \<Rightarrow> Inl AttributeError)"


fun str_nat :: "nat \<Rightarrow> string" where
  "str_nat n =
     (if n < 10 then [''0123456789'' ! n]
      else str_nat (n div 10) @ [''0123456789'' ! (n mod 10)])"

declare str_nat.simps [simp del]

definition str_int :: "int \<Rightarrow> string" where
  "str_int i = (if i < 0 then CHR ''-'' # str_nat (nat (- i)) else str_nat (nat i))"

text \<open>\<open>str(x)\<close>, which is what the \<open>%s\<close> conversion applies.\<close>

definition py_str :: "interp \<Rightarrow> json \<Rightarrow> string" where
  "py_str rt x =
     (case x of
        JStr s \<Rightarrow> s
      | JNull \<Rightarrow> ''None''
      | JBool b \<Rightarrow> (if b then ''True'' else ''False'')
      | JInt i \<Rightarrow> str_int i
      | _ \<Rightarrow> repr rt x)"

section \<open>Response decoder (libcloud/common/oneandone.py)\<close>

text \<open>The status codes of \<open>httplib\<close> that the module names.\<close>

definition OK :: int where "OK = 200"
definition CREATED :: int where "CREATED = 201"
definition ACCEPTED :: int where "ACCEPTED = 202"
definition NO_CONTENT :: int where "NO_CONTENT = 204"

record response =
  status :: int
  body :: string

definition valid_response_codes :: "int list" where
  "valid_response_codes = [OK, ACCEPTED, CREATED, NO_CONTENT]"

definition success :: "response \<Rightarrow> bool" where
  "success r = (status r \<in> set valid_response_codes)"


section \<open>Compute driver (libcloud/compute/drivers/oneandone.py)\<close>

text \<open>
  Modelled from the spec: \<open>NodeState\<close> (\<open>libcloud.compute.types\<close>) and the entity
  classes \<open>Node\<close>, \<open>NodeImage\<close>, \<open>NodeLocation\<close> and \<open>NodeSize\<close>
  (\<open>libcloud.compute.base\<close>) are not among the sources. The lifecycle states are the
  four that the spec enumerates, and an entity is the record of the keyword arguments
  its constructor is called with; \<open>'d\<close> is the type of the driver it refers back to.
\<close>

datatype NodeState = RUNNING | REBOOTING | PENDING | UNKNOWN

record 'd Node =
  node_id :: json
  node_name :: json
  node_state :: NodeState
  public_ips :: "json list"
  private_ips :: "json list option"
  node_extra :: "(string \<times> json) list"
  node_driver :: 'd

record 'd NodeImage =
  image_id :: json
  image_name :: json
  image_extra :: "(string \<times> json) list"
  image_driver :: 'd

record 'd NodeLocation =
  location_id :: json
  location_name :: json
  country :: json
  location_driver :: 'd

record 'd NodeSize =
  size_id :: json
  size_name :: json
  ram :: int
  disk :: json
  bandwidth :: int
  price :: int
  size_driver :: 'd
  size_extra :: "(string \<times> json) list"

subsection \<open>The facade\<close>

text \<open>
  \<open>OneAndOneNodeDriver.__new__\<close>: \<open>cls\<close> is the class the method is called on, and
  the result is the class of the instance that is created.
\<close>

datatype driver_class = OneAndOneNodeDriver | OneAndOne_v1_NodeDriver

definition OneAndOneNodeDriver_new ::
    "driver_class \<Rightarrow> string option \<Rightarrow> string option \<Rightarrow> string \<Rightarrow> error + driver_class" where
  "OneAndOneNodeDriver_new cls key secret api_version =
     (if cls = OneAndOneNodeDriver then
        (if key = None then Inl (InvalidCredsError (JStr ''key missing for v1 authentication''))
         else Inr OneAndOne_v1_NodeDriver)
      else Inl (NotImplementedError (''Unsupported API version: '' @ api_version)))"

subsection \<open>Entity mapping\<close>

definition NODE_STATE_MAP :: "(string \<times> NodeState) list" where
  "NODE_STATE_MAP =
     [(''DEPLOYING'', PENDING), (''POWERED_OFF'', REBOOTING), (''POWERED_ON'', RUNNING)]"

text \<open>
  \<open>d.get(key, default)\<close> on a dictionary with text keys, for a key that is any decoded
  value: a list or a dictionary cannot be hashed, any other value that is not text is
  simply absent.
\<close>

definition dict_get :: "(string \<times> 'v) list \<Rightarrow> json \<Rightarrow> 'v \<Rightarrow> error + 'v" where
  "dict_get d key dflt =
     (case key of
        JStr s \<Rightarrow> Inr (case map_of d s of None \<Rightarrow> dflt | Some v \<Rightarrow> v)
      | JList _ \<Rightarrow> Inl TypeError
      | JDict _ \<Rightarrow> Inl TypeError
      | _ \<Rightarrow> Inr dflt)"

text \<open>
  The loop \<open>for key in extra_keys: if key in src: extra[key] = src[key]\<close>, with the
  dictionary \<open>extra\<close> as accumulator.
\<close>

fun copy_extra :: "string list \<Rightarrow> json \<Rightarrow> (string \<times> json) list \<Rightarrow> error + (string \<times> json) list" where
  "copy_extra [] src extra = Inr extra"
| "copy_extra (key # keys) src extra =
     (case py_contains key src of
        Inl e \<Rightarrow> Inl e
      | Inr present \<Rightarrow>
          if present then
            (case py_getitem src key of
               Inl e \<Rightarrow> Inl e
             | Inr v \<Rightarrow> copy_extra keys src (AList.update key v extra))
          else copy_extra keys src extra)"

definition to_node :: "'d \<Rightarrow> json \<Rightarrow> error + 'd Node" where
  "to_node self data =
     (let extra_keys = [''backups_active'', ''region_id'', ''image_id'', ''size_id''] in
      bind_err (py_contains ''status'' data) (\<lambda>has_status.
      bind_err (if has_status then
                  bind_err (py_getitem data ''status'') (\<lambda>st.
                  bind_err (py_getitem st ''state'') (\<lambda>k.
                  dict_get NODE_STATE_MAP k UNKNOWN))
                else Inr UNKNOWN) (\<lambda>state.
      bind_err (py_contains ''ips'' data) (\<lambda>has_ips.
      bind_err (if has_ips then bind_err (py_getitem data ''ips'') (\<lambda>ips. Inr (ips \<noteq> JNull))
                else Inr False) (\<lambda>with_ips.
      bind_err (if with_ips then bind_err (py_getitem data ''ips'') (\<lambda>ips. Inr [ips])
                else Inr []) (\<lambda>ips_list.
      bind_err (copy_extra extra_keys data []) (\<lambda>extra.
      bind_err (py_getitem data ''id'') (\<lambda>i.
      bind_err (py_getitem data ''name'') (\<lambda>nm.
      Inr \<lparr>node_id = i, node_name = nm, node_state = state, public_ips = ips_list,
           private_ips = None, node_extra = extra, node_driver = self\<rparr>)))))))))"

definition to_image :: "'d \<Rightarrow> json \<Rightarrow> error + 'd NodeImage" where
  "to_image self data =
     bind_err (py_getitem data ''os'') (\<lambda>os.
     bind_err (py_getitem data ''os_version'') (\<lambda>os_version.
     bind_err (py_getitem data ''architecture'') (\<lambda>architecture.
     bind_err (py_getitem data ''id'') (\<lambda>i.
     bind_err (py_getitem data ''name'') (\<lambda>nm.
     Inr \<lparr>image_id = i, image_name = nm,
          image_extra = [(''os'', os), (''os_version'', os_version),
                         (''architecture'', architecture)],
          image_driver = self\<rparr>)))))"

definition to_location :: "'d \<Rightarrow> json \<Rightarrow> error + 'd NodeLocation" where
  "to_location self data =
     bind_err (py_getitem data ''id'') (\<lambda>i.
     bind_err (py_getitem data ''location'') (\<lambda>loc.
     bind_err (py_getitem data ''country_code'') (\<lambda>cc.
     Inr \<lparr>location_id = i, location_name = loc, country = cc, location_driver = self\<rparr>)))"

text \<open>
  Reading a local variable: \<open>ram\<close> and \<open>hdds_size\<close> are bound only inside the
  \<open>if 'hardware' in data\<close> block, so a local is an option and reading an unbound one
  raises.
\<close>

definition read_local :: "string \<Rightarrow> 'a option \<Rightarrow> error + 'a" where
  "read_local var v = (case v of None \<Rightarrow> Inl (UnboundLocalError var) | Some x \<Rightarrow> Inr x)"


subsection \<open>Creating a node\<close>

record http_request =
  action :: string
  req_data :: json
  http_method :: string

text \<open>The dictionary \<open>form\<close> that \<open>create_node\<close> hands to \<open>json.dumps\<close>.\<close>

definition create_node_form ::
    "string \<Rightarrow> 'd NodeSize \<Rightarrow> 'd NodeImage \<Rightarrow> 'd NodeLocation option \<Rightarrow> json" where
  "create_node_form name size' image' location =
     (let hardware = JDict [(''fixed_instance_size_id'', size_id size')]
      in JDict [(''name'', JStr name), (''description'', JStr ''test''),
                (''hardware'', hardware),
                (''appliance_id'', JStr ''7B9067380CB74BBDFE7F473DEEA2AF5C'')])"

text \<open>
  \<open>connection.request\<close> comes from \<open>libcloud.common.base\<close>, which is not among the
  sources: it is the parameter \<open>request\<close>. It raises when the response decoder classifies
  the answer as a failure, and otherwise returns the response, of which \<open>create_node\<close>
  reads the decoded body \<open>object\<close> only. The field \<open>req_data\<close> of a request is the
  document that is serialised into its body.
\<close>

definition create_node ::
    "interp \<Rightarrow> (http_request \<Rightarrow> error + json) \<Rightarrow> 'd \<Rightarrow> string \<Rightarrow> 'd NodeSize \<Rightarrow> 'd NodeImage \<Rightarrow>
     'd NodeLocation option \<Rightarrow> error + 'd Node" where
  "create_node rt request self name size' image' location =
     bind_err (request \<lparr>action = ''/v1/servers'',
                        req_data = create_node_form name size' image' location,
                        http_method = ''POST''\<rparr>) (\<lambda>obj.
     bind_err (py_get obj ''status'' (JStr ''OK'')) (\<lambda>st.
     if st = JStr ''ERROR'' then
       bind_err (py_get obj ''message'' JNull) (\<lambda>message.
       bind_err (py_get obj ''error_message'' message) (\<lambda>error_message.
       Inl (ValueError (''Failed to create node: '' @ py_str rt error_message))))
     else to_node self obj))"

section \<open>Basic facts\<close>

lemma bind_err_Inl [simp]: "bind_err (Inl e) f = Inl e"
  by (simp add: bind_err_def)

lemma bind_err_Inr [simp]: "bind_err (Inr x) f = f x"
  by (simp add: bind_err_def)

lemma py_contains_dict [simp]: "py_contains key (JDict d) = Inr (map_of d key \<noteq> None)"
  by (simp add: py_contains_def)

lemma py_getitem_dict_Some [simp]:
  "map_of d key = Some v \<Longrightarrow> py_getitem (JDict d) key = Inr v"
  by (simp add: py_getitem_def)

lemma py_getitem_dict_None [simp]:
  "map_of d key = None \<Longrightarrow> py_getitem (JDict d) key = Inl (KeyError (JStr key))"
  by (simp add: py_getitem_def)

lemma py_get_dict [simp]:
  "py_get (JDict d) key dflt = Inr (case map_of d key of None \<Rightarrow> dflt | Some v \<Rightarrow> v)"
  by (simp add: py_get_def)

lemma seq_index_0_Cons [simp]: "seq_index (x # xs) 0 = Inr x"
  by (simp add: seq_index_def)

lemma seq_index_Nil [simp]: "seq_index [] i = Inl IndexError"
  by (simp add: seq_index_def)

lemma read_local_simps [simp]:
  "read_local var None = Inl (UnboundLocalError var)"
  "read_local var (Some x) = Inr x"
  by (simp_all add: read_local_def)


text \<open>On a dictionary the copying loop cannot fail: it is a fold over the keys.\<close>

lemma copy_extra_dict:
  "copy_extra keys (JDict d) extra =
     Inr (fold (\<lambda>key acc. case map_of d key of None \<Rightarrow> acc | Some v \<Rightarrow> AList.update key v acc)
            keys extra)"
  by (induction keys arbitrary: extra) (auto split: option.splits)

text \<open>
  The node mapping of a dictionary that has \<open>id\<close> and \<open>name\<close>: only the lookup of the
  state can fail.
\<close>

lemma to_node_dict:
  assumes "map_of d ''id'' = Some i" and "map_of d ''name'' = Some nm"
  shows "to_node self (JDict d) =
     bind_err (case map_of d ''status'' of
                 None \<Rightarrow> Inr UNKNOWN
               | Some st \<Rightarrow> bind_err (py_getitem st ''state'') (\<lambda>k. dict_get NODE_STATE_MAP k UNKNOWN))
       (\<lambda>state. Inr \<lparr>node_id = i, node_name = nm, node_state = state,
           public_ips = (case map_of d ''ips'' of None \<Rightarrow> [] | Some v \<Rightarrow> if v = JNull then [] else [v]),
           private_ips = None,
           node_extra =
             fold (\<lambda>key acc. case map_of d key of None \<Rightarrow> acc | Some v \<Rightarrow> AList.update key v acc)
               [''backups_active'', ''region_id'', ''image_id'', ''size_id''] [],
           node_driver = self\<rparr>)"
  unfolding to_node_def Let_def copy_extra_dict
  using assms by (simp split: option.splits del: fold_simps)


section \<open>The facade\<close>

text \<open>
  C1: constructing the facade with an \<open>api_version\<close> other than \<open>v1\<close> should fail with the
  error \<open>Unsupported API version\<close> and should not resolve to the version-1 driver. The
  code evaluated at the key \<open>k\<close> and the version \<open>v2\<close>: the branch that raises is
  attached to the test of the class, so the facade resolves to the version-1 driver.
\<close>

theorem facade_ignores_api_version:
  "OneAndOneNodeDriver_new OneAndOneNodeDriver (Some ''k'') None ''v2'' =
     Inr OneAndOne_v1_NodeDriver"
  by (simp add: OneAndOneNodeDriver_new_def)

section \<open>Response classification\<close>

text \<open>
  C2: \<open>success()\<close> is true exactly for the status codes 200, 201, 202 and 204; every
  other status code is a failure.
\<close>

theorem success_iff_valid_code:
  "success r \<longleftrightarrow> status r \<in> {200, 201, 202, 204}"
  by (auto simp add: success_def valid_response_codes_def OK_def CREATED_def ACCEPTED_def
      NO_CONTENT_def)



section \<open>Entity mapping\<close>

text \<open>
  C4: for a node payload (a JSON object with \<open>id\<close> and \<open>name\<close>), the node mapping
  succeeds and computes the state by the fixed lookup \<open>DEPLOYING\<close> to pending,
  \<open>POWERED_OFF\<close> to rebooting, \<open>POWERED_ON\<close> to running; any other text in
  \<open>status.state\<close> gives unknown, and so does a payload without the key \<open>status\<close>.
\<close>

theorem to_node_state:
  assumes "map_of d ''id'' = Some i" and "map_of d ''name'' = Some nm"
  shows "(map_of d ''status'' = None \<longrightarrow>
            (\<exists>n. to_node self (JDict d) = Inr n \<and> node_state n = UNKNOWN)) \<and>
         (map_of d ''status'' = Some (JDict st) \<and> map_of st ''state'' = Some (JStr s) \<longrightarrow>
            (\<exists>n. to_node self (JDict d) = Inr n \<and>
                 node_state n =
                   (if s = ''DEPLOYING'' then PENDING
                    else if s = ''POWERED_OFF'' then REBOOTING
                    else if s = ''POWERED_ON'' then RUNNING
                    else UNKNOWN)))"
  unfolding to_node_dict [OF assms]
  by (simp add: dict_get_def NODE_STATE_MAP_def del: fold_simps)

theorem to_node_state_witness:
  "(\<exists>n. to_node () (JDict [(''id'', JStr ''1''), (''name'', JStr ''n''),
                           (''status'', JDict [(''state'', JStr ''POWERED_ON'')]),
                           (''ips'', JStr ''1.2.3.4'')]) = Inr n \<and> node_state n = RUNNING) \<and>
   (\<exists>n. to_node () (JDict [(''id'', JStr ''1''), (''name'', JStr ''n''),
                           (''status'', JDict [(''state'', JStr ''POWERED_OFF'')])]) = Inr n \<and>
        node_state n = REBOOTING) \<and>
   (\<exists>n. to_node () (JDict [(''id'', JStr ''1''), (''name'', JStr ''n''),
                           (''status'', JDict [(''state'', JStr ''DEPLOYING'')])]) = Inr n \<and>
        node_state n = PENDING) \<and>
   (\<exists>n. to_node () (JDict [(''id'', JStr ''1''), (''name'', JStr ''n''),
                           (''status'', JDict [(''state'', JStr ''REMOVING'')])]) = Inr n \<and>
        node_state n = UNKNOWN) \<and>
   (\<exists>n. to_node () (JDict [(''id'', JStr ''1''), (''name'', JStr ''n'')]) = Inr n \<and>
        node_state n = UNKNOWN)"
  using
    to_node_state [where d = "[(''id'', JStr ''1''), (''name'', JStr ''n''),
                           (''status'', JDict [(''state'', JStr ''POWERED_ON'')]),
                           (''ips'', JStr ''1.2.3.4'')]" and i = "JStr ''1''" and nm = "JStr ''n''"
      and st = "[(''state'', JStr ''POWERED_ON'')]" and s = "''POWERED_ON''" and self = "()"]
    to_node_state [where d = "[(''id'', JStr ''1''), (''name'', JStr ''n''),
                           (''status'', JDict [(''state'', JStr ''POWERED_OFF'')])]"
      and i = "JStr ''1''" and nm = "JStr ''n''"
      and st = "[(''state'', JStr ''POWERED_OFF'')]" and s = "''POWERED_OFF''" and self = "()"]
    to_node_state [where d = "[(''id'', JStr ''1''), (''name'', JStr ''n''),
                           (''status'', JDict [(''state'', JStr ''DEPLOYING'')])]"
      and i = "JStr ''1''" and nm = "JStr ''n''"
      and st = "[(''state'', JStr ''DEPLOYING'')]" and s = "''DEPLOYING''" and self = "()"]
    to_node_state [where d = "[(''id'', JStr ''1''), (''name'', JStr ''n''),
                           (''status'', JDict [(''state'', JStr ''REMOVING'')])]"
      and i = "JStr ''1''" and nm = "JStr ''n''"
      and st = "[(''state'', JStr ''REMOVING'')]" and s = "''REMOVING''" and self = "()"]
    to_node_state [where d = "[(''id'', JStr ''1''), (''name'', JStr ''n'')]"
      and i = "JStr ''1''" and nm = "JStr ''n''" and self = "()"]
  by simp

text \<open>
  C9: a node payload whose \<open>status\<close> is a JSON object without the key \<open>state\<close> makes the
  node mapping fail with \<open>KeyError('state')\<close>, whatever else the payload holds; the state
  is not defaulted to unknown.
\<close>

theorem to_node_status_without_state:
  assumes "map_of d ''status'' = Some (JDict st)" and "map_of st ''state'' = None"
  shows "to_node self (JDict d) = Inl (KeyError (JStr ''state''))"
  using assms by (simp add: to_node_def)

theorem to_node_status_without_state_witness:
  "to_node () (JDict [(''id'', JStr ''1''), (''name'', JStr ''n''), (''status'', JDict [])]) =
     Inl (KeyError (JStr ''state'')) \<and>
   to_node () (JDict [(''id'', JStr ''1''), (''name'', JStr ''n''),
                      (''status'', JDict [(''percent'', JInt 50)])]) =
     Inl (KeyError (JStr ''state''))"
  using
    to_node_status_without_state [where d = "[(''id'', JStr ''1''), (''name'', JStr ''n''),
        (''status'', JDict [])]" and st = "[]" and self = "()"]
    to_node_status_without_state [where d = "[(''id'', JStr ''1''), (''name'', JStr ''n''),
        (''status'', JDict [(''percent'', JInt 50)])]" and st = "[(''percent'', JInt 50)]"
        and self = "()"]
  by simp



text \<open>
  C7: a location payload with \<open>id\<close>, \<open>location\<close> and \<open>country_code\<close> is mapped to the
  location whose id, name and country are exactly these three values; and whenever the
  mapping returns a location, the three fields of the payload are read back from it.
\<close>

theorem to_location_fields:
  "(map_of d ''id'' = Some i \<and> map_of d ''location'' = Some l \<and> map_of d ''country_code'' = Some c \<longrightarrow>
      to_location self (JDict d) =
        Inr \<lparr>location_id = i, location_name = l, country = c, location_driver = self\<rparr>) \<and>
   (to_location self (JDict d) = Inr loc \<longrightarrow>
      map_of d ''id'' = Some (location_id loc) \<and> map_of d ''location'' = Some (location_name loc) \<and>
      map_of d ''country_code'' = Some (country loc))"
  by (auto simp add: to_location_def py_getitem_def bind_err_def split: option.splits)

theorem to_location_fields_witness:
  "to_location () (JDict [(''id'', JStr ''L1''), (''location'', JStr ''Lon''),
                            (''country_code'', JStr ''GB'')]) =
     Inr \<lparr>location_id = JStr ''L1'', location_name = JStr ''Lon'', country = JStr ''GB'',
          location_driver = ()\<rparr> \<and>
   map_of [(''id'', JStr ''L1''), (''location'', JStr ''Lon''), (''country_code'', JStr ''GB'')] ''id''
     = Some (location_id \<lparr>location_id = JStr ''L1'', location_name = JStr ''Lon'',
                          country = JStr ''GB'', location_driver = ()\<rparr>) \<and>
   map_of [(''id'', JStr ''L1''), (''location'', JStr ''Lon''), (''country_code'', JStr ''GB'')]
       ''location''
     = Some (location_name \<lparr>location_id = JStr ''L1'', location_name = JStr ''Lon'',
                            country = JStr ''GB'', location_driver = ()\<rparr>) \<and>
   map_of [(''id'', JStr ''L1''), (''location'', JStr ''Lon''), (''country_code'', JStr ''GB'')]
       ''country_code''
     = Some (country \<lparr>location_id = JStr ''L1'', location_name = JStr ''Lon'',
                      country = JStr ''GB'', location_driver = ()\<rparr>)"
  using to_location_fields [where d = "[(''id'', JStr ''L1''), (''location'', JStr ''Lon''),
                            (''country_code'', JStr ''GB'')]" and i = "JStr ''L1''"
      and l = "JStr ''Lon''" and c = "JStr ''GB''" and self = "()"
      and loc = "\<lparr>location_id = JStr ''L1'', location_name = JStr ''Lon'', country = JStr ''GB'',
          location_driver = ()\<rparr>"]
  by simp

section \<open>Creating a node\<close>

text \<open>
  C8: the document that \<open>create_node\<close> sends is exactly \<open>name\<close>, the description
  \<open>test\<close>, the hardware selector with \<open>size.id\<close> and the fixed appliance identifier. Two
  calls that agree on the name and on \<open>size.id\<close> build the same document and have the
  same outcome, whatever their \<open>image\<close> and \<open>location\<close> arguments are; and when the
  connection raises on that very request, \<open>create_node\<close> raises the same error.
\<close>

theorem create_node_request_body:
  "create_node_form name sz img loc =
     JDict [(''name'', JStr name), (''description'', JStr ''test''),
            (''hardware'', JDict [(''fixed_instance_size_id'', size_id sz)]),
            (''appliance_id'', JStr ''7B9067380CB74BBDFE7F473DEEA2AF5C'')] \<and>
   (size_id sz = size_id sz' \<longrightarrow>
      create_node_form name sz img loc = create_node_form name sz' img' loc' \<and>
      create_node rt request self name sz img loc =
        create_node rt request self name sz' img' loc') \<and>
   (request \<lparr>action = ''/v1/servers'',
             req_data = JDict [(''name'', JStr name), (''description'', JStr ''test''),
                               (''hardware'', JDict [(''fixed_instance_size_id'', size_id sz)]),
                               (''appliance_id'', JStr ''7B9067380CB74BBDFE7F473DEEA2AF5C'')],
             http_method = ''POST''\<rparr> = Inl e \<longrightarrow>
      create_node rt request self name sz img loc = Inl e)"
  by (simp add: create_node_def create_node_form_def)

theorem create_node_request_body_witness:
  "create_node_form ''web''
       \<lparr>size_id = JStr ''S1'', size_name = JStr ''small'', ram = 1024, disk = JInt 40, bandwidth = 0, price = 0, size_driver = (), size_extra = []\<rparr>
       \<lparr>image_id = JStr ''I1'', image_name = JStr ''centos'', image_extra = [], image_driver = ()\<rparr>
       None =
     create_node_form ''web''
       \<lparr>size_id = JStr ''S1'', size_name = JStr ''other'', ram = 2048, disk = JInt 80, bandwidth = 0, price = 0, size_driver = (), size_extra = []\<rparr>
       \<lparr>image_id = JStr ''I2'', image_name = JStr ''ubuntu'', image_extra = [], image_driver = ()\<rparr>
       (Some \<lparr>location_id = JStr ''L1'', location_name = JStr ''Lon'', country = JStr ''GB'', location_driver = ()\<rparr>) \<and>
   create_node \<lparr>int_text = (\<lambda>s. None), repr = (\<lambda>x. [])\<rparr> (\<lambda>q. Inr (JDict [(''id'', JStr ''1''), (''name'', JStr ''web'')])) () ''web''
       \<lparr>size_id = JStr ''S1'', size_name = JStr ''small'', ram = 1024, disk = JInt 40, bandwidth = 0, price = 0, size_driver = (), size_extra = []\<rparr>
       \<lparr>image_id = JStr ''I1'', image_name = JStr ''centos'', image_extra = [], image_driver = ()\<rparr>
       (None) =
   create_node \<lparr>int_text = (\<lambda>s. None), repr = (\<lambda>x. [])\<rparr> (\<lambda>q. Inr (JDict [(''id'', JStr ''1''), (''name'', JStr ''web'')])) () ''web''
       \<lparr>size_id = JStr ''S1'', size_name = JStr ''other'', ram = 2048, disk = JInt 80, bandwidth = 0, price = 0, size_driver = (), size_extra = []\<rparr>
       \<lparr>image_id = JStr ''I2'', image_name = JStr ''ubuntu'', image_extra = [], image_driver = ()\<rparr>
       (Some \<lparr>location_id = JStr ''L1'', location_name = JStr ''Lon'', country = JStr ''GB'', location_driver = ()\<rparr>) \<and>
   create_node \<lparr>int_text = (\<lambda>s. None), repr = (\<lambda>x. [])\<rparr> (\<lambda>q. Inl (InvalidCredsError (JStr ''bad token''))) () ''web''
       \<lparr>size_id = JStr ''S1'', size_name = JStr ''small'', ram = 1024, disk = JInt 40, bandwidth = 0, price = 0, size_driver = (), size_extra = []\<rparr>
       \<lparr>image_id = JStr ''I1'', image_name = JStr ''centos'', image_extra = [], image_driver = ()\<rparr>
       (None) = Inl (InvalidCredsError (JStr ''bad token''))"
  using
    create_node_request_body [where rt = "\<lparr>int_text = (\<lambda>s. None), repr = (\<lambda>x. [])\<rparr>"
      and self = "()"
      and name = "''web''"
      and sz = "\<lparr>size_id = JStr ''S1'', size_name = JStr ''small'', ram = 1024, disk = JInt 40, bandwidth = 0, price = 0, size_driver = (), size_extra = []\<rparr>"
      and img = "\<lparr>image_id = JStr ''I1'', image_name = JStr ''centos'', image_extra = [], image_driver = ()\<rparr>"
      and loc = "None"
      and request = "\<lambda>q. Inr (JDict [(''id'', JStr ''1''), (''name'', JStr ''web'')])"
      and sz' = "\<lparr>size_id = JStr ''S1'', size_name = JStr ''other'', ram = 2048, disk = JInt 80, bandwidth = 0, price = 0, size_driver = (), size_extra = []\<rparr>"
      and img' = "\<lparr>image_id = JStr ''I2'', image_name = JStr ''ubuntu'', image_extra = [], image_driver = ()\<rparr>"
      and loc' = "Some \<lparr>location_id = JStr ''L1'', location_name = JStr ''Lon'', country = JStr ''GB'', location_driver = ()\<rparr>"]
    create_node_request_body [where rt = "\<lparr>int_text = (\<lambda>s. None), repr = (\<lambda>x. [])\<rparr>"
      and self = "()"
      and name = "''web''"
      and sz = "\<lparr>size_id = JStr ''S1'', size_name = JStr ''small'', ram = 1024, disk = JInt 40, bandwidth = 0, price = 0, size_driver = (), size_extra = []\<rparr>"
      and img = "\<lparr>image_id = JStr ''I1'', image_name = JStr ''centos'', image_extra = [], image_driver = ()\<rparr>"
      and loc = "None"
      and request = "\<lambda>q. Inl (InvalidCredsError (JStr ''bad token''))"
      and e = "InvalidCredsError (JStr ''bad token'')"]
  by simp

text \<open>
  C6: when the connection raises (the status-based check of the response decoder among
  its reasons), \<open>create_node\<close> raises the same error. When it returns a JSON object whose
  \<open>status\<close> is \<open>ERROR\<close>, \<open>create_node\<close> raises \<open>ValueError\<close> with the message
  \<open>Failed to create node: \<close> followed by the \<open>error_message\<close> field, or by the
  \<open>message\<close> field when \<open>error_message\<close> is absent. Otherwise it returns what the node
  mapping makes of the body.
\<close>

theorem create_node_vendor_error:
  "(request \<lparr>action = ''/v1/servers'', req_data = create_node_form name sz img loc,
             http_method = ''POST''\<rparr> = Inl e \<longrightarrow>
      create_node rt request self name sz img loc = Inl e) \<and>
   (request \<lparr>action = ''/v1/servers'', req_data = create_node_form name sz img loc,
             http_method = ''POST''\<rparr> = Inr (JDict d) \<longrightarrow>
      (map_of d ''status'' = Some (JStr ''ERROR'') \<and> map_of d ''error_message'' = Some m \<longrightarrow>
         create_node rt request self name sz img loc =
           Inl (ValueError (''Failed to create node: '' @ py_str rt m))) \<and>
      (map_of d ''status'' = Some (JStr ''ERROR'') \<and> map_of d ''error_message'' = None \<and>
       map_of d ''message'' = Some m \<longrightarrow>
         create_node rt request self name sz img loc =
           Inl (ValueError (''Failed to create node: '' @ py_str rt m))) \<and>
      (map_of d ''status'' \<noteq> Some (JStr ''ERROR'') \<longrightarrow>
         create_node rt request self name sz img loc = to_node self (JDict d)))"
  by (auto simp add: create_node_def split: option.splits)

theorem create_node_vendor_error_witness:
  "create_node \<lparr>int_text = (\<lambda>s. None), repr = (\<lambda>x. [])\<rparr> (\<lambda>q. Inr (JDict [(''status'', JStr ''ERROR''), (''error_message'', JStr ''quota exceeded'')])) () ''web''
       \<lparr>size_id = JStr ''S1'', size_name = JStr ''small'', ram = 1024, disk = JInt 40, bandwidth = 0, price = 0, size_driver = (), size_extra = []\<rparr>
       \<lparr>image_id = JStr ''I1'', image_name = JStr ''centos'', image_extra = [], image_driver = ()\<rparr>
       (None) = Inl (ValueError ''Failed to create node: quota exceeded'') \<and>
   create_node \<lparr>int_text = (\<lambda>s. None), repr = (\<lambda>x. [])\<rparr> (\<lambda>q. Inr (JDict [(''status'', JStr ''ERROR''), (''message'', JStr ''no capacity'')])) () ''web''
       \<lparr>size_id = JStr ''S1'', size_name = JStr ''small'', ram = 1024, disk = JInt 40, bandwidth = 0, price = 0, size_driver = (), size_extra = []\<rparr>
       \<lparr>image_id = JStr ''I1'', image_name = JStr ''centos'', image_extra = [], image_driver = ()\<rparr>
       (None) = Inl (ValueError ''Failed to create node: no capacity'') \<and>
   create_node \<lparr>int_text = (\<lambda>s. None), repr = (\<lambda>x. [])\<rparr> (\<lambda>q. Inr (JDict [(''id'', JStr ''1''), (''name'', JStr ''web'')])) () ''web''
       \<lparr>size_id = JStr ''S1'', size_name = JStr ''small'', ram = 1024, disk = JInt 40, bandwidth = 0, price = 0, size_driver = (), size_extra = []\<rparr>
       \<lparr>image_id = JStr ''I1'', image_name = JStr ''centos'', image_extra = [], image_driver = ()\<rparr>
       (None) = to_node () (JDict [(''id'', JStr ''1''), (''name'', JStr ''web'')]) \<and>
   create_node \<lparr>int_text = (\<lambda>s. None), repr = (\<lambda>x. [])\<rparr> (\<lambda>q. Inl (InvalidCredsError (JStr ''bad token''))) () ''web''
       \<lparr>size_id = JStr ''S1'', size_name = JStr ''small'', ram = 1024, disk = JInt 40, bandwidth = 0, price = 0, size_driver = (), size_extra = []\<rparr>
       \<lparr>image_id = JStr ''I1'', image_name = JStr ''centos'', image_extra = [], image_driver = ()\<rparr>
       (None) = Inl (InvalidCredsError (JStr ''bad token''))"
  using
    create_node_vendor_error [where rt = "\<lparr>int_text = (\<lambda>s. None), repr = (\<lambda>x. [])\<rparr>"
      and self = "()"
      and name = "''web''"
      and sz = "\<lparr>size_id = JStr ''S1'', size_name = JStr ''small'', ram = 1024, disk = JInt 40, bandwidth = 0, price = 0, size_driver = (), size_extra = []\<rparr>"
      and img = "\<lparr>image_id = JStr ''I1'', image_name = JStr ''centos'', image_extra = [], image_driver = ()\<rparr>"
      and loc = "None"
      and request = "\<lambda>q. Inr (JDict [(''status'', JStr ''ERROR''), (''error_message'', JStr ''quota exceeded'')])"
      and d = "[(''status'', JStr ''ERROR''), (''error_message'', JStr ''quota exceeded'')]"
      and m = "JStr ''quota exceeded''"]
    create_node_vendor_error [where rt = "\<lparr>int_text = (\<lambda>s. None), repr = (\<lambda>x. [])\<rparr>"
      and self = "()"
      and name = "''web''"
      and sz = "\<lparr>size_id = JStr ''S1'', size_name = JStr ''small'', ram = 1024, disk = JInt 40, bandwidth = 0, price = 0, size_driver = (), size_extra = []\<rparr>"
      and img = "\<lparr>image_id = JStr ''I1'', image_name = JStr ''centos'', image_extra = [], image_driver = ()\<rparr>"
      and loc = "None"
      and request = "\<lambda>q. Inr (JDict [(''status'', JStr ''ERROR''), (''message'', JStr ''no capacity'')])"
      and d = "[(''status'', JStr ''ERROR''), (''message'', JStr ''no capacity'')]"
      and m = "JStr ''no capacity''"]
    create_node_vendor_error [where rt = "\<lparr>int_text = (\<lambda>s. None), repr = (\<lambda>x. [])\<rparr>"
      and self = "()"
      and name = "''web''"
      and sz = "\<lparr>size_id = JStr ''S1'', size_name = JStr ''small'', ram = 1024, disk = JInt 40, bandwidth = 0, price = 0, size_driver = (), size_extra = []\<rparr>"
      and img = "\<lparr>image_id = JStr ''I1'', image_name = JStr ''centos'', image_extra = [], image_driver = ()\<rparr>"
      and loc = "None"
      and request = "\<lambda>q. Inr (JDict [(''id'', JStr ''1''), (''name'', JStr ''web'')])"
      and d = "[(''id'', JStr ''1''), (''name'', JStr ''web'')]"]
    create_node_vendor_error [where rt = "\<lparr>int_text = (\<lambda>s. None), repr = (\<lambda>x. [])\<rparr>"
      and self = "()"
      and name = "''web''"
      and sz = "\<lparr>size_id = JStr ''S1'', size_name = JStr ''small'', ram = 1024, disk = JInt 40, bandwidth = 0, price = 0, size_driver = (), size_extra = []\<rparr>"
      and img = "\<lparr>image_id = JStr ''I1'', image_name = JStr ''centos'', image_extra = [], image_driver = ()\<rparr>"
      and loc = "None"
      and request = "\<lambda>q. Inl (InvalidCredsError (JStr ''bad token''))"
      and e = "InvalidCredsError (JStr ''bad token'')"]
  by (simp add: py_str_def)



end
